theory Spec2Isabelle
  imports Complex_Main
begin

section \<open>The BMS environment of \<^verbatim>\<open>Environments/Environment_BMS.py\<close>\<close>

text \<open>
  Python floats are modelled as \<^typ>\<open>real\<close>: rounding, infinities and NaN are outside
  the model, and so is the \<^verbatim>\<open>float32\<close> cast of the action bounds and of the
  observation vector. Python's \<^verbatim>\<open>None\<close> is \<^term>\<open>None\<close>; an exception is
  a value \<^term>\<open>Inl err\<close>.
\<close>

datatype error = TypeError | AttributeError

subsection \<open>The clock\<close>

text \<open>
  Of a \<^verbatim>\<open>datetime\<close> the class reads \<^verbatim>\<open>hour\<close>, \<^verbatim>\<open>minute\<close> and
  \<^verbatim>\<open>weekday()\<close>. The date is kept as its proleptic Gregorian ordinal, from which
  CPython computes \<^verbatim>\<open>weekday() = (toordinal() + 6) % 7\<close>. Seconds and microseconds
  are set to zero by \<^verbatim>\<open>reset\<close> and never read; the upper end of the calendar
  (year 9999) is not modelled.
\<close>

record datetime =
  ordinal :: nat
  hour :: nat
  minute :: nat

definition weekday :: "datetime \<Rightarrow> nat" where
  "weekday t = (ordinal t + 6) mod 7"

text \<open>\<^verbatim>\<open>t + datetime.timedelta(hours=n)\<close>.\<close>

definition add_hours :: "datetime \<Rightarrow> nat \<Rightarrow> datetime" where
  "add_hours t n =
     (let h = hour t + n
      in t\<lparr>ordinal := ordinal t + h div 24, hour := h mod 24\<rparr>)"

text \<open>Minutes elapsed since midnight of ordinal day 0, to compare two timestamps.\<close>

definition minutes_since_epoch :: "datetime \<Rightarrow> nat" where
  "minutes_since_epoch t = (ordinal t * 24 + hour t) * 60 + minute t"

subsection \<open>Configuration and state\<close>

text \<open>
  The attributes that \<^verbatim>\<open>__init__\<close> reads from \<^verbatim>\<open>kwargs\<close> and that no
  method assigns afterwards are gathered in \<open>config\<close>; \<open>default_config\<close> holds the
  defaults of the \<^verbatim>\<open>kwargs.get\<close> calls.
\<close>

record config =
  initial_SoC :: real
  SoC_min :: real
  SoC_max :: real
  Load_min :: real
  Load_max :: real
  Generation_min :: real
  Generation_max :: real
  Price_min :: real
  Price_mid :: real
  Price_max :: real
  a_min :: real
  a_max :: real
  max_steps :: int
  miu_p :: real
  lamda_p :: real
  eta :: real
  battery_capacity :: real
  time_interval :: real

definition default_config :: config where
  "default_config =
     \<lparr>initial_SoC = 0.5, SoC_min = 0.1, SoC_max = 0.95,
      Load_min = 0, Load_max = 1,
      Generation_min = 0, Generation_max = 1,
      Price_min = 0.1, Price_mid = 0.2, Price_max = 0.3,
      a_min = -1, a_max = 1,
      max_steps = 24,
      miu_p = 10, lamda_p = 10,
      eta = 0.9, battery_capacity = 10,
      time_interval = 1\<rparr>"

text \<open>
  The invariant of the configuration as the specification words it: every lower bound
  is at most its upper bound, efficiency and capacity are positive. The class never
  checks it; it is a hypothesis of the theorems that need it.
\<close>

definition valid_config :: "config \<Rightarrow> bool" where
  "valid_config c =
     (SoC_min c \<le> SoC_max c \<and> Load_min c \<le> Load_max c \<and>
      Generation_min c \<le> Generation_max c \<and> a_min c \<le> a_max c \<and>
      0 < eta c \<and> 0 < battery_capacity c)"

record env =
  cfg :: config
  L :: "real option"
  G :: "real option"
  SoC :: "real option"
  time :: "datetime option"
  current_step :: int

text \<open>
  \<^verbatim>\<open>__init__\<close>. The action space is a \<^verbatim>\<open>Box\<close> whose bounds are
  \<^verbatim>\<open>a_min\<close> and \<^verbatim>\<open>a_max\<close>; the observation space is read by no method.
\<close>

definition init :: "config \<Rightarrow> env" where
  "init c = \<lparr>cfg = c, L = None, G = None, SoC = None, time = None, current_step = 0\<rparr>"

definition action_space_low :: "env \<Rightarrow> real" where
  "action_space_low e = a_min (cfg e)"

definition action_space_high :: "env \<Rightarrow> real" where
  "action_space_high e = a_max (cfg e)"

subsection \<open>Info dictionary and observation\<close>

text \<open>The dictionaries appended to the violation lists (keys \<^verbatim>\<open>type\<close>,
  \<^verbatim>\<open>value\<close>, \<^verbatim>\<open>corrected_to\<close>).\<close>

record violation =
  vtype :: string
  vvalue :: real
  corrected_to :: real

record info =
  info_SoC :: "real option"
  info_Load :: "real option"
  info_Generation :: "real option"
  Violations_SoC :: "violation list"
  violations_action :: "violation list"
  penalty_SoC :: "real list"
  penalty_action :: "real list"

definition get_info :: "env \<Rightarrow> info" where
  "get_info e =
     \<lparr>info_SoC = SoC e, info_Load = L e, info_Generation = G e,
      Violations_SoC = [], violations_action = [],
      penalty_SoC = [], penalty_action = []\<rparr>"

text \<open>The seven components of the observation array; a \<^verbatim>\<open>None\<close> attribute
  would become NaN in the array and stays \<^term>\<open>None\<close> here.\<close>

record observation =
  obs_SoC :: "real option"
  obs_L :: "real option"
  obs_G :: "real option"
  hour_sin :: real
  hour_cos :: real
  day_sin :: real
  day_cos :: real

text \<open>\<^verbatim>\<open>np.clip(x, lo, hi)\<close> is \<^verbatim>\<open>minimum(maximum(x, lo), hi)\<close>.\<close>

definition clip :: "real \<Rightarrow> real \<Rightarrow> real \<Rightarrow> real" where
  "clip x lo hi = min (max x lo) hi"

text \<open>The local \<^verbatim>\<open>hour = self.time.hour + self.time.minute / 60.0\<close> of
  \<^verbatim>\<open>_get_obs\<close> and \<^verbatim>\<open>_update_generation_and_load\<close>.\<close>

definition fractional_hour :: "datetime \<Rightarrow> real" where
  "fractional_hour t = real (hour t) + real (minute t) / 60"

definition get_obs :: "env \<Rightarrow> error + observation" where
  "get_obs e =
     (case time e of
        None \<Rightarrow> Inl AttributeError
      | Some t \<Rightarrow>
          (let hr = fractional_hour t;
               day_of_week = real (weekday t)
           in Inr \<lparr>obs_SoC = SoC e, obs_L = L e, obs_G = G e,
                   hour_sin = sin (2 * pi * hr / 24),
                   hour_cos = cos (2 * pi * hr / 24),
                   day_sin = sin (2 * pi * day_of_week / 7),
                   day_cos = cos (2 * pi * day_of_week / 7)\<rparr>))"

subsection \<open>The SoC update and the action check\<close>

text \<open>
  \<^verbatim>\<open>_get_SoC(action, info)\<close> returns the new SoC and the penalty; the model also
  returns the info dictionary and the object, both of which the method updates in place.
  Adding a number to a \<^verbatim>\<open>None\<close> SoC raises \<^verbatim>\<open>TypeError\<close>.
\<close>

definition get_SoC :: "env \<Rightarrow> real \<Rightarrow> info \<Rightarrow> error + (real \<times> real \<times> info \<times> env)" where
  "get_SoC e action info0 =
     (case SoC e of
        None \<Rightarrow> Inl TypeError
      | Some soc \<Rightarrow>
          (let c = cfg e;
               SoC_proposed = soc + eta c * (action * time_interval c) / battery_capacity c;
               violated = (SoC_proposed < SoC_min c \<or> SoC_proposed > SoC_max c);
               info1 = (if violated
                       then info0\<lparr>Violations_SoC := Violations_SoC info0 @
                              [\<lparr>vtype = ''SoC Violation'', vvalue = SoC_proposed,
                                corrected_to = clip SoC_proposed (SoC_min c) (SoC_max c)\<rparr>]\<rparr>
                       else info0);
               SoC_adjusted = (if violated
                               then clip SoC_proposed (SoC_min c) (SoC_max c)
                               else SoC_proposed);
               delta_SoC = \<bar>SoC_proposed - SoC_adjusted\<bar>;
               penalty = lamda_p c * delta_SoC;
               e1 = e\<lparr>SoC := Some SoC_adjusted\<rparr>;
               info2 = info1\<lparr>penalty_SoC := penalty_SoC info1 @ [penalty]\<rparr>
           in Inr (SoC_adjusted, penalty, info2, e1)))"

text \<open>The local \<^verbatim>\<open>delta_action\<close> of \<^verbatim>\<open>_get_action_check\<close>, the magnitude of
  the correction.\<close>

definition delta_action :: "env \<Rightarrow> real \<Rightarrow> real" where
  "delta_action e action =
     \<bar>action - clip action (action_space_low e) (action_space_high e)\<bar>"

text \<open>\<^verbatim>\<open>_get_action_check(action, info)\<close> returns the adjusted action and the
  penalty; the model also returns the info dictionary. The \<^verbatim>\<open>print\<close> is left out.\<close>

definition get_action_check :: "env \<Rightarrow> real \<Rightarrow> info \<Rightarrow> real \<times> real \<times> info" where
  "get_action_check e action info0 =
     (let adjusted_action = clip action (action_space_low e) (action_space_high e);
          info1 = (if action \<noteq> adjusted_action
                  then info0\<lparr>violations_action := violations_action info0 @
                         [\<lparr>vtype = ''Action Violation'', vvalue = action,
                           corrected_to = adjusted_action\<rparr>]\<rparr>
                  else info0);
          penalty = miu_p (cfg e) * delta_action e action
      in (adjusted_action, penalty, info1))"

subsection \<open>Tariff and exogenous signals\<close>

definition get_price :: "env \<Rightarrow> error + real" where
  "get_price e =
     (case time e of
        None \<Rightarrow> Inl AttributeError
      | Some t \<Rightarrow>
          (let day_of_week = weekday t; hr = hour t; c = cfg e
           in Inr (if day_of_week < 5
                   then (if 8 \<le> hr \<and> hr < 19 then Price_max c
                         else if (7 \<le> hr \<and> hr < 8) \<or> (19 \<le> hr \<and> hr < 23) then Price_mid c
                         else Price_min c)
                   else if day_of_week = 5
                   then (if 7 \<le> hr \<and> hr < 23 then Price_mid c else Price_min c)
                   else Price_min c)))"

definition update_generation_and_load :: "env \<Rightarrow> error + env" where
  "update_generation_and_load e =
     (case time e of
        None \<Rightarrow> Inl AttributeError
      | Some t \<Rightarrow>
          (let hr = fractional_hour t; c = cfg e;
               g = max 0 (sin (pi * (hr - 6) / 12));
               l = 0.5 + 0.5 * sin (pi * (hr - 17) / 12)
           in Inr (e\<lparr>G := Some (clip g (Generation_min c) (Generation_max c)),
                     L := Some (clip l (Load_min c) (Load_max c))\<rparr>)))"

subsection \<open>Reset and step\<close>

text \<open>
  \<^verbatim>\<open>reset\<close> starts the clock at midnight of the current day, which is the
  parameter \<open>today\<close> (the ordinal of \<^verbatim>\<open>datetime.now()\<close>). The seed is not used
  by any formula.
\<close>

definition reset :: "env \<Rightarrow> nat \<Rightarrow> error + (observation \<times> info \<times> env)" where
  "reset e today =
     (let e1 = e\<lparr>current_step := 0\<rparr>;
          e2 = e1\<lparr>SoC := Some (initial_SoC (cfg e1))\<rparr>;
          e3 = e2\<lparr>time := Some \<lparr>ordinal = today, hour = 0, minute = 0\<rparr>\<rparr>
      in case update_generation_and_load e3 of
           Inl err \<Rightarrow> Inl err
         | Inr e4 \<Rightarrow>
             (case get_obs e4 of
                Inl err \<Rightarrow> Inl err
              | Inr ob \<Rightarrow> Inr (ob, get_info e4, e4)))"

text \<open>The energy balance of \<^verbatim>\<open>step\<close> (the \<^verbatim>\<open>if/elif/else\<close> that assigns the
  local \<^verbatim>\<open>actual_action\<close> from \<^verbatim>\<open>action_corrected\<close> and \<^verbatim>\<open>net_load\<close>).\<close>

definition actual_action :: "real \<Rightarrow> real \<Rightarrow> real" where
  "actual_action action_corrected net_load =
     (if action_corrected < 0
      then (let max_discharge = min (- action_corrected) net_load in - max_discharge)
      else if action_corrected > 0
      then (let surplus_pv = max 0 (- net_load);
                max_charge = min action_corrected surplus_pv
            in max_charge)
      else 0)"

text \<open>The grid interaction of \<^verbatim>\<open>step\<close>: the pair \<^verbatim>\<open>(P_grid, P_surplus)\<close>.\<close>

definition grid_interaction :: "real \<Rightarrow> real \<times> real" where
  "grid_interaction net_load_after_battery =
     (if net_load_after_battery > 0 then (net_load_after_battery, 0)
      else if net_load_after_battery < 0 then (0, - net_load_after_battery)
      else (0, 0))"

text \<open>
  \<^verbatim>\<open>step(action)\<close>, with \<open>action\<close> the element \<^verbatim>\<open>action[0]\<close>. The result is the
  returned tuple (observation, reward, done, truncated, info) and the object after the
  call. When the call raises, the model returns the exception alone.
\<close>

type_synonym step_result = "observation \<times> real \<times> bool \<times> bool \<times> info"

definition step :: "env \<Rightarrow> real \<Rightarrow> error + (step_result \<times> env)" where
  "step e0 action =
     (let e = e0\<lparr>current_step := current_step e0 + 1\<rparr>;
          info0 = get_info e
      in case get_action_check e action info0 of
           (action_corrected, penalty_act, info1) \<Rightarrow>
      (case get_SoC e action_corrected info1 of
         Inl err \<Rightarrow> Inl err
       | Inr (soc1, penalty_SoC1, info2, e1) \<Rightarrow>
      (case update_generation_and_load e1 of
         Inl err \<Rightarrow> Inl err
       | Inr e2 \<Rightarrow>
      (case (L e2, G e2) of
         (Some l, Some g) \<Rightarrow>
           (let net_load = l - g;
                actual = actual_action action_corrected net_load
            in case get_SoC e2 (actual - action_corrected) info2 of
                 Inl err \<Rightarrow> Inl err
               | Inr (soc2, penalty_SoC_additional, info3, e3) \<Rightarrow>
                   (let penalty_SoC_total = penalty_SoC1 + penalty_SoC_additional;
                        net_load_after_battery = net_load + actual
                    in case grid_interaction net_load_after_battery of
                         (P_grid, P_surplus) \<Rightarrow>
                    (case get_price e3 of
                       Inl err \<Rightarrow> Inl err
                     | Inr price \<Rightarrow>
                         (let C_purchased = price * P_grid;
                              R_sale = price * P_surplus;
                              total_penalty = penalty_act + penalty_SoC_total;
                              reward = R_sale - C_purchased - total_penalty
                          in case time e3 of
                               None \<Rightarrow> Inl TypeError
                             | Some t \<Rightarrow>
                                 (let e4 = e3\<lparr>time := Some (add_hours t 1)\<rparr>
                                  in case get_obs e4 of
                                       Inl err \<Rightarrow> Inl err
                                     | Inr ob \<Rightarrow>
                                         (let done = (current_step e4 \<ge> max_steps (cfg e4))
                                          in Inr ((ob, reward, done, False, info3), e4)))))))
       | _ \<Rightarrow> Inl TypeError))))"

text \<open>A sequence of \<^verbatim>\<open>step\<close> calls, one per action; it stops at the first
  exception.\<close>

fun steps :: "env \<Rightarrow> real list \<Rightarrow> error + env" where
  "steps e [] = Inr e"
| "steps e (a # as) =
     (case step e a of Inl err \<Rightarrow> Inl err | Inr (r, e1) \<Rightarrow> steps e1 as)"

subsection \<open>Reading the results of calls\<close>

text \<open>The object after \<^verbatim>\<open>BMSEnvironment(**c)\<close> followed by \<^verbatim>\<open>reset()\<close> on day
  \<open>today\<close>, the object after a \<^verbatim>\<open>step\<close> call or a sequence of them, and the
  tuple that a \<^verbatim>\<open>step\<close> call returned.\<close>

definition reset_env :: "config \<Rightarrow> nat \<Rightarrow> env" where
  "reset_env c today = snd (snd (projr (reset (init c) today)))"

definition env_after_step :: "env \<Rightarrow> real \<Rightarrow> env" where
  "env_after_step e a = snd (projr (step e a))"

definition env_after_steps :: "env \<Rightarrow> real list \<Rightarrow> env" where
  "env_after_steps e acts = projr (steps e acts)"

definition result_of_step :: "env \<Rightarrow> real \<Rightarrow> step_result" where
  "result_of_step e a = fst (projr (step e a))"

definition terminated :: "step_result \<Rightarrow> bool" where
  "terminated r = (case r of (ob, rw, done, trunc, i) \<Rightarrow> done)"

definition truncated :: "step_result \<Rightarrow> bool" where
  "truncated r = (case r of (ob, rw, done, trunc, i) \<Rightarrow> trunc)"

subsection \<open>The specification's formulas\<close>


text \<open>The tariff schedule in the specification's words, with weekday 0 for Monday up to
  6 for Sunday: Monday to Friday the high tier in [8,19), the mid tier in [7,8) and
  [19,23), the low tier otherwise; Saturday the mid tier in [7,23), the low tier
  otherwise; Sunday the low tier.\<close>

definition tariff_spec :: "config \<Rightarrow> nat \<Rightarrow> nat \<Rightarrow> real" where
  "tariff_spec c wd hr =
     (if wd \<in> {0, 1, 2, 3, 4}
      then (if hr \<in> {8..<19} then Price_max c
            else if hr \<in> {7..<8} \<union> {19..<23} then Price_mid c
            else Price_min c)
      else if wd = 5
      then (if hr \<in> {7..<23} then Price_mid c else Price_min c)
      else Price_min c)"

text \<open>The rule of the energy balance in the specification's words: a discharge request
  is limited by the deficit \<open>max(net, 0)\<close>, a charge request by the surplus
  \<open>max(-net, 0)\<close>.\<close>

definition actual_action_spec :: "real \<Rightarrow> real \<Rightarrow> real" where
  "actual_action_spec a_c net =
     (if a_c < 0 then - min (- a_c) (max net 0)
      else if a_c > 0 then min a_c (max (- net) 0)
      else 0)"

subsection \<open>Example configurations\<close>


definition config_one_step :: config where
  "config_one_step = default_config\<lparr>max_steps := 1\<rparr>"

definition config_half_hour :: config where
  "config_half_hour = default_config\<lparr>time_interval := 1/2\<rparr>"

section \<open>Properties\<close>

subsection \<open>Auxiliary facts\<close>

lemma clip_bounds: "lo \<le> hi \<Longrightarrow> lo \<le> clip x lo hi \<and> clip x lo hi \<le> hi"
  by (simp add: clip_def)

lemma clip_id: "lo \<le> x \<Longrightarrow> x \<le> hi \<Longrightarrow> clip x lo hi = x"
  by (simp add: clip_def)


lemma get_SoC_None: "SoC e = None \<Longrightarrow> get_SoC e x i0 = Inl TypeError"
  by (simp add: get_SoC_def)

lemma get_SoC_Some:
  assumes "SoC e = Some s"
    and "p = s + eta (cfg e) * (x * time_interval (cfg e)) / battery_capacity (cfg e)"
    and "s1 = clip p (SoC_min (cfg e)) (SoC_max (cfg e))"
  shows "\<exists>i1. get_SoC e x i0 = Inr (s1, lamda_p (cfg e) * \<bar>p - s1\<bar>, i1, e\<lparr>SoC := Some s1\<rparr>)
           \<and> penalty_SoC i1 = penalty_SoC i0 @ [lamda_p (cfg e) * \<bar>p - s1\<bar>]
           \<and> violations_action i1 = violations_action i0"
  using assms by (simp add: get_SoC_def Let_def clip_def)

lemma get_action_check_eq:
  "\<exists>i1. get_action_check e a i0 =
      (clip a (a_min (cfg e)) (a_max (cfg e)), miu_p (cfg e) * delta_action e a, i1)
     \<and> penalty_SoC i1 = penalty_SoC i0"
  by (simp add: get_action_check_def Let_def action_space_low_def action_space_high_def)

lemma update_generation_and_load_Some:
  assumes "time e = Some t"
  shows "update_generation_and_load e =
     Inr (e\<lparr>G := Some (clip (max 0 (sin (pi * (fractional_hour t - 6) / 12)))
                        (Generation_min (cfg e)) (Generation_max (cfg e))),
            L := Some (clip (0.5 + 0.5 * sin (pi * (fractional_hour t - 17) / 12))
                        (Load_min (cfg e)) (Load_max (cfg e)))\<rparr>)"
  using assms by (simp add: update_generation_and_load_def Let_def)

text \<open>What one \<^verbatim>\<open>step\<close> call computes on an object whose SoC and clock are set; every
  local of the method has its name here.\<close>

lemma step_Some:
  assumes S: "SoC e = Some s" and T: "time e = Some t"
    and ac: "ac = clip a (a_min (cfg e)) (a_max (cfg e))"
    and p1: "p1 = s + eta (cfg e) * (ac * time_interval (cfg e)) / battery_capacity (cfg e)"
    and s1: "s1 = clip p1 (SoC_min (cfg e)) (SoC_max (cfg e))"
    and g: "g = clip (max 0 (sin (pi * (fractional_hour t - 6) / 12)))
                 (Generation_min (cfg e)) (Generation_max (cfg e))"
    and l: "l = clip (0.5 + 0.5 * sin (pi * (fractional_hour t - 17) / 12))
                 (Load_min (cfg e)) (Load_max (cfg e))"
    and act: "act = actual_action ac (l - g)"
    and p2: "p2 = s1 + eta (cfg e) * ((act - ac) * time_interval (cfg e)) / battery_capacity (cfg e)"
    and s2: "s2 = clip p2 (SoC_min (cfg e)) (SoC_max (cfg e))"
    and e': "e' = e\<lparr>L := Some l, G := Some g, SoC := Some s2, time := Some (add_hours t 1),
                    current_step := current_step e + 1\<rparr>"
  shows "\<exists>ob rw i3 pr. step e a = Inr ((ob, rw, max_steps (cfg e) \<le> current_step e + 1, False, i3), e')
          \<and> get_obs e' = Inr ob
          \<and> get_price (e\<lparr>time := Some t\<rparr>) = Inr pr
          \<and> rw = pr * snd (grid_interaction (l - g + act)) - pr * fst (grid_interaction (l - g + act))
                 - (miu_p (cfg e) * delta_action e a
                    + (lamda_p (cfg e) * \<bar>p1 - s1\<bar> + lamda_p (cfg e) * \<bar>p2 - s2\<bar>))
          \<and> penalty_SoC i3 = [lamda_p (cfg e) * \<bar>p1 - s1\<bar>, lamda_p (cfg e) * \<bar>p2 - s2\<bar>]"
proof -
  define e1 where "e1 = e\<lparr>current_step := current_step e + 1\<rparr>"
  have c1: "cfg e1 = cfg e" "SoC e1 = Some s" "time e1 = Some t"
    using S T by (simp_all add: e1_def)
  obtain i1 where A: "get_action_check e1 a (get_info e1) = (ac, miu_p (cfg e) * delta_action e a, i1)"
    and A2: "penalty_SoC i1 = []"
    using get_action_check_eq [of e1 a "get_info e1"] c1 ac
    by (auto simp: get_info_def delta_action_def action_space_low_def action_space_high_def)
  obtain i2 where B: "get_SoC e1 ac i1 = Inr (s1, lamda_p (cfg e) * \<bar>p1 - s1\<bar>, i2, e1\<lparr>SoC := Some s1\<rparr>)"
    and B2: "penalty_SoC i2 = [lamda_p (cfg e) * \<bar>p1 - s1\<bar>]"
    using get_SoC_Some [of e1 s p1 ac s1 i1] c1 p1 s1 A2 by auto
  define e2 where "e2 = e1\<lparr>SoC := Some s1\<rparr>"
  have c2: "cfg e2 = cfg e" "SoC e2 = Some s1" "time e2 = Some t"
    using c1 by (simp_all add: e2_def)
  define e3 where "e3 = e2\<lparr>G := Some g, L := Some l\<rparr>"
  have C: "update_generation_and_load e2 = Inr e3"
    using update_generation_and_load_Some [of e2 t] c2 g l by (simp add: e3_def)
  have c3: "cfg e3 = cfg e" "SoC e3 = Some s1" "time e3 = Some t" "L e3 = Some l" "G e3 = Some g"
    using c2 by (simp_all add: e3_def)
  obtain i3 where D: "get_SoC e3 (act - ac) i2 = Inr (s2, lamda_p (cfg e) * \<bar>p2 - s2\<bar>, i3, e3\<lparr>SoC := Some s2\<rparr>)"
    and D2: "penalty_SoC i3 = [lamda_p (cfg e) * \<bar>p1 - s1\<bar>, lamda_p (cfg e) * \<bar>p2 - s2\<bar>]"
    using get_SoC_Some [of e3 s1 p2 "act - ac" s2 i2] c3 p2 s2 B2 by auto
  define e4 where "e4 = e3\<lparr>SoC := Some s2\<rparr>"
  have c4: "cfg e4 = cfg e" "time e4 = Some t" "current_step e4 = current_step e + 1"
    using c3 by (simp_all add: e4_def e3_def e2_def e1_def)
  obtain pr where P: "get_price e4 = Inr pr" and P': "get_price (e\<lparr>time := Some t\<rparr>) = Inr pr"
    using c4 by (simp add: get_price_def Let_def)
  have E: "e4\<lparr>time := Some (add_hours t 1)\<rparr> = e'"
    by (simp add: e' e4_def e3_def e2_def e1_def)
  obtain ob where O: "get_obs e' = Inr ob"
    by (simp add: get_obs_def e' Let_def)
  obtain pg ps where GI: "grid_interaction (l - g + act) = (pg, ps)"
    by (cases "grid_interaction (l - g + act)")
  have c5: "cfg e' = cfg e" "current_step e' = current_step e + 1"
    by (simp_all add: e')
  have "step e a = Inr ((ob, pr * ps - pr * pg
                 - (miu_p (cfg e) * delta_action e a
                    + (lamda_p (cfg e) * \<bar>p1 - s1\<bar> + lamda_p (cfg e) * \<bar>p2 - s2\<bar>)),
              max_steps (cfg e) \<le> current_step e + 1, False, i3), e')"
    unfolding step_def Let_def
    using A B C D P O GI E c3 c4 c5 act
    by (simp add: e1_def [symmetric] e2_def [symmetric] e4_def [symmetric])
  then show ?thesis using O P' D2 GI by simp
qed

lemma reset_env_simps:
  "cfg (reset_env c today) = c"
  "SoC (reset_env c today) = Some (initial_SoC c)"
  "time (reset_env c today) = Some \<lparr>ordinal = today, hour = 0, minute = 0\<rparr>"
  "current_step (reset_env c today) = 0"
  by (simp_all add: reset_env_def reset_def init_def update_generation_and_load_def get_obs_def
        Let_def)

lemma reset_returns:
  "\<exists>ob i. reset (init c) today = Inr (ob, i, reset_env c today)"
  by (simp add: reset_env_def reset_def init_def update_generation_and_load_def get_obs_def
        Let_def)

lemma step_projections:
  "step e a = Inr (r, e') \<Longrightarrow> result_of_step e a = r \<and> env_after_step e a = e' \<and> \<not> isl (step e a)"
  by (simp add: result_of_step_def env_after_step_def)

lemma step_initialised:
  assumes "SoC e = Some s" and "time e = Some t"
  shows "\<exists>ob rw i3 e' p.
           step e a = Inr ((ob, rw, max_steps (cfg e) \<le> current_step e + 1, False, i3), e')
         \<and> cfg e' = cfg e
         \<and> SoC e' = Some (clip p (SoC_min (cfg e)) (SoC_max (cfg e)))
         \<and> time e' = Some (add_hours t 1)
         \<and> current_step e' = current_step e + 1"
proof -
  define ac where "ac = clip a (a_min (cfg e)) (a_max (cfg e))"
  define p1 where "p1 = s + eta (cfg e) * (ac * time_interval (cfg e)) / battery_capacity (cfg e)"
  define s1 where "s1 = clip p1 (SoC_min (cfg e)) (SoC_max (cfg e))"
  define g where "g = clip (max 0 (sin (pi * (fractional_hour t - 6) / 12)))
                 (Generation_min (cfg e)) (Generation_max (cfg e))"
  define l where "l = clip (0.5 + 0.5 * sin (pi * (fractional_hour t - 17) / 12))
                 (Load_min (cfg e)) (Load_max (cfg e))"
  define act where "act = actual_action ac (l - g)"
  define p2 where "p2 = s1 + eta (cfg e) * ((act - ac) * time_interval (cfg e)) / battery_capacity (cfg e)"
  define s2 where "s2 = clip p2 (SoC_min (cfg e)) (SoC_max (cfg e))"
  define e' where "e' = e\<lparr>L := Some l, G := Some g, SoC := Some s2, time := Some (add_hours t 1),
                    current_step := current_step e + 1\<rparr>"
  from step_Some [OF assms ac_def p1_def s1_def g_def l_def act_def p2_def s2_def e'_def]
  obtain ob rw i3 where
    "step e a = Inr ((ob, rw, max_steps (cfg e) \<le> current_step e + 1, False, i3), e')"
    by blast
  moreover have "cfg e' = cfg e" "SoC e' = Some (clip p2 (SoC_min (cfg e)) (SoC_max (cfg e)))"
    "time e' = Some (add_hours t 1)" "current_step e' = current_step e + 1"
    by (simp_all add: e'_def s2_def)
  ultimately show ?thesis by blast
qed

lemma step_Inr_initialised:
  assumes "step e a = Inr (r, e')"
  shows "\<exists>s t. SoC e = Some s \<and> time e = Some t"
proof (cases "SoC e")
  case None
  then have "step e a = Inl TypeError"
    by (simp add: step_def Let_def get_SoC_None split: prod.splits)
  with assms show ?thesis by simp
next
  case (Some s)
  show ?thesis
  proof (cases "time e")
    case None
    define e1 where "e1 = e\<lparr>current_step := current_step e + 1\<rparr>"
    obtain ac pa i1 where A: "get_action_check e1 a (get_info e1) = (ac, pa, i1)"
      by (cases "get_action_check e1 a (get_info e1)")
    have "SoC e1 = Some s" using Some by (simp add: e1_def)
    from get_SoC_Some [OF this refl refl, of ac i1]
    obtain s1 q i2 where B: "get_SoC e1 ac i1 = Inr (s1, q, i2, e1\<lparr>SoC := Some s1\<rparr>)"
      by blast
    have "update_generation_and_load (e1\<lparr>SoC := Some s1\<rparr>) = Inl AttributeError"
      using None by (simp add: update_generation_and_load_def e1_def)
    then have "step e a = Inl AttributeError"
      unfolding step_def Let_def using A B by (simp add: e1_def [symmetric])
    with assms show ?thesis by simp
  next
    case (Some t)
    with \<open>SoC e = Some s\<close> show ?thesis by simp
  qed
qed

lemma steps_initialised:
  assumes "SoC e = Some s" and "time e = Some t"
  shows "\<exists>e' s' t'. steps e acts = Inr e' \<and> cfg e' = cfg e \<and> SoC e' = Some s' \<and> time e' = Some t'
           \<and> current_step e' = current_step e + int (length acts)"
  using assms
proof (induction acts arbitrary: e s t)
  case Nil
  then show ?case by simp
next
  case (Cons a acts)
  from step_initialised [OF Cons.prems, of a]
  obtain r e1 p where st: "step e a = Inr (r, e1)" and c: "cfg e1 = cfg e"
    and s1: "SoC e1 = Some (clip p (SoC_min (cfg e)) (SoC_max (cfg e)))"
    and t1: "time e1 = Some (add_hours t 1)" and n: "current_step e1 = current_step e + 1"
    by blast
  from Cons.IH [OF s1 t1]
  obtain e' s' t' where "steps e1 acts = Inr e'" "cfg e' = cfg e1" "SoC e' = Some s'"
    "time e' = Some t'" "current_step e' = current_step e1 + int (length acts)"
    by blast
  then show ?case using st c n by simp
qed

lemma steps_append:
  "steps e (xs @ ys) = (case steps e xs of Inl err \<Rightarrow> Inl err | Inr e1 \<Rightarrow> steps e1 ys)"
  by (induction xs arbitrary: e) (auto split: sum.splits)

lemma add_hours_neq: "add_hours t 1 \<noteq> t"
proof
  assume "add_hours t 1 = t"
  then have "hour (add_hours t 1) = hour t" "ordinal (add_hours t 1) = ordinal t" by simp_all
  then have "(hour t + 1) mod 24 = hour t" "(hour t + 1) div 24 = 0"
    by (simp_all add: add_hours_def Let_def)
  then show False by simp
qed

lemma add_hours_minutes:
  "minutes_since_epoch (add_hours t 1) = minutes_since_epoch t + 60"
proof -
  have "(ordinal t + (hour t + 1) div 24) * 24 + (hour t + 1) mod 24 = ordinal t * 24 + hour t + 1"
    by (simp add: algebra_simps)
  then show ?thesis
    by (simp add: minutes_since_epoch_def add_hours_def Let_def)
qed



lemma step_uninitialised: "SoC e = None \<Longrightarrow> step e a = Inl TypeError"
  by (simp add: step_def Let_def get_SoC_None split: prod.splits)

lemma step_after_terminated:
  assumes "step e a = Inr (r, e')" and "terminated r"
  shows "\<exists>r2 e2. step e' a2 = Inr (r2, e2) \<and> terminated r2 \<and> \<not> truncated r2"
proof -
  from step_Inr_initialised [OF assms(1)]
  obtain s t where s: "SoC e = Some s" and t: "time e = Some t"
    by blast
  from step_initialised [OF s t, of a]
  obtain ob rw i3 e1 p where
    st: "step e a = Inr ((ob, rw, max_steps (cfg e) \<le> current_step e + 1, False, i3), e1)"
    and c1: "cfg e1 = cfg e"
    and s1: "SoC e1 = Some (clip p (SoC_min (cfg e)) (SoC_max (cfg e)))"
    and t1: "time e1 = Some (add_hours t 1)"
    and n1: "current_step e1 = current_step e + 1"
    by blast
  have r: "r = (ob, rw, max_steps (cfg e) \<le> current_step e + 1, False, i3)" and e': "e' = e1"
    using assms(1) st by simp_all
  have reached: "max_steps (cfg e) \<le> current_step e + 1"
    using assms(2) by (simp add: r terminated_def)
  from step_initialised [OF s1 t1, of a2]
  obtain ob2 rw2 i4 e2 where
    st2: "step e1 a2 = Inr ((ob2, rw2, max_steps (cfg e1) \<le> current_step e1 + 1, False, i4), e2)"
    by blast
  have "terminated (ob2, rw2, max_steps (cfg e1) \<le> current_step e1 + 1, False, i4)"
    using reached c1 n1 by (simp add: terminated_def)
  moreover have "\<not> truncated (ob2, rw2, max_steps (cfg e1) \<le> current_step e1 + 1, False, i4)"
    by (simp add: truncated_def)
  ultimately show ?thesis using st2 e' by blast
qed

lemma first_step_one_step_episode:
  "step (reset_env config_one_step 739194) 0
     = Inr (result_of_step (reset_env config_one_step 739194) 0,
            env_after_step (reset_env config_one_step 739194) 0)
   \<and> terminated (result_of_step (reset_env config_one_step 739194) 0)"
proof -
  let ?e = "reset_env config_one_step 739194"
  have s: "SoC ?e = Some (initial_SoC config_one_step)"
    and t: "time ?e = Some \<lparr>ordinal = 739194, hour = 0, minute = 0\<rparr>"
    and n: "current_step ?e = 0" and m: "max_steps (cfg ?e) = 1"
    by (simp_all add: reset_env_simps config_one_step_def)
  from step_initialised [OF s t, of 0]
  obtain ob rw i3 e1 where
    st: "step ?e 0 = Inr ((ob, rw, max_steps (cfg ?e) \<le> current_step ?e + 1, False, i3), e1)"
    by blast
  then have "result_of_step ?e 0 = (ob, rw, max_steps (cfg ?e) \<le> current_step ?e + 1, False, i3)"
    "env_after_step ?e 0 = e1"
    by (simp_all add: step_projections)
  then show ?thesis using st n m by (simp add: terminated_def)
qed

lemma mod_mod_24: "((a::nat) mod 24 + n) mod 24 = (a + n) mod 24"
  by (simp add: mod_add_left_eq)

lemma div_mod_24: "(a::nat) div 24 + (a mod 24 + n) div 24 = (a + n) div 24"
proof -
  have "a + n = 24 * (a div 24) + (a mod 24 + n)" by simp
  then have "(a + n) div 24 = (24 * (a div 24) + (a mod 24 + n)) div 24" by simp
  also have "\<dots> = a div 24 + (a mod 24 + n) div 24"
    by (rule div_mult_self2 [of 24 "a mod 24 + n" "a div 24", simplified add.commute [of _ "24 * _"]]) simp
  finally show ?thesis by simp
qed


lemma add_hours_add_hours: "add_hours (add_hours t 1) n = add_hours t (Suc n)"
proof -
  have "ordinal t + (hour t + 1) div 24 + ((hour t + 1) mod 24 + n) div 24
          = ordinal t + (hour t + 1 + n) div 24"
    using div_mod_24 [of "hour t + 1" n] by simp
  moreover have "((hour t + 1) mod 24 + n) mod 24 = (hour t + 1 + n) mod 24"
    by (rule mod_mod_24)
  ultimately show ?thesis
    by (simp add: add_hours_def Let_def)
qed

lemma step_zero_action:
  assumes "SoC e = Some s" and "time e = Some t"
    and "SoC_min (cfg e) \<le> s" and "s \<le> SoC_max (cfg e)"
    and "a_min (cfg e) \<le> 0" and "0 \<le> a_max (cfg e)"
  shows "\<exists>r e'. step e 0 = Inr (r, e') \<and> cfg e' = cfg e \<and> SoC e' = Some s
           \<and> time e' = Some (add_hours t 1)"
proof -
  define g where "g = clip (max 0 (sin (pi * (fractional_hour t - 6) / 12)))
                 (Generation_min (cfg e)) (Generation_max (cfg e))"
  define l where "l = clip (0.5 + 0.5 * sin (pi * (fractional_hour t - 17) / 12))
                 (Load_min (cfg e)) (Load_max (cfg e))"
  define e' where "e' = e\<lparr>L := Some l, G := Some g, SoC := Some s, time := Some (add_hours t 1),
                    current_step := current_step e + 1\<rparr>"
  have ac: "0 = clip 0 (a_min (cfg e)) (a_max (cfg e))"
    using assms(5,6) by (simp add: clip_id)
  have p1: "s = s + eta (cfg e) * (0 * time_interval (cfg e)) / battery_capacity (cfg e)"
    by simp
  have s1: "s = clip s (SoC_min (cfg e)) (SoC_max (cfg e))"
    using assms(3,4) by (simp add: clip_id)
  have act: "0 = actual_action 0 (l - g)"
    by (simp add: actual_action_def)
  have p2: "s = s + eta (cfg e) * ((0 - 0) * time_interval (cfg e)) / battery_capacity (cfg e)"
    by simp
  from step_Some [OF assms(1,2) ac p1 s1 g_def l_def act p2 s1 e'_def]
  obtain r where "step e 0 = Inr (r, e')"
    by blast
  moreover have "cfg e' = cfg e" "SoC e' = Some s" "time e' = Some (add_hours t 1)"
    by (simp_all add: e'_def)
  ultimately show ?thesis by blast
qed

lemma steps_zero_actions:
  assumes "SoC e = Some s" and "time e = Some t"
    and "SoC_min (cfg e) \<le> s" and "s \<le> SoC_max (cfg e)"
    and "a_min (cfg e) \<le> 0" and "0 \<le> a_max (cfg e)" and "hour t < 24"
  shows "\<exists>e'. steps e (replicate n 0) = Inr e' \<and> cfg e' = cfg e \<and> SoC e' = Some s
           \<and> time e' = Some (add_hours t n)"
  using assms
proof (induction n arbitrary: e t)
  case 0
  then show ?case by (simp add: add_hours_def)
next
  case (Suc n)
  from step_zero_action [OF Suc.prems(1-6)]
  obtain r e1 where st: "step e 0 = Inr (r, e1)" and c1: "cfg e1 = cfg e"
    and s1: "SoC e1 = Some s" and t1: "time e1 = Some (add_hours t 1)"
    by blast
  have b: "SoC_min (cfg e1) \<le> s" "s \<le> SoC_max (cfg e1)" "a_min (cfg e1) \<le> 0" "0 \<le> a_max (cfg e1)"
    "hour (add_hours t 1) < 24"
    using Suc.prems c1 by (simp_all add: add_hours_def Let_def)
  from Suc.IH [OF s1 t1 b]
  obtain e' where "steps e1 (replicate n 0) = Inr e'" "cfg e' = cfg e1" "SoC e' = Some s"
    "time e' = Some (add_hours (add_hours t 1) n)"
    by blast
  then show ?case using st c1 add_hours_add_hours [of t n] by simp
qed

lemma sin_five_twelfths: "0 < sin (5 * pi / 12) \<and> sin (5 * pi / 12) \<le> 1"
proof -
  have "0 < 5 * pi / 12" "5 * pi / 12 < pi"
    using pi_gt_zero by simp_all
  then have "0 < sin (5 * pi / 12)" by (rule sin_gt_zero)
  then show ?thesis by simp
qed

subsection \<open>The SoC update at a zero action\<close>

text \<open>
  Claim C9. For a state of charge within the configured bounds, the SoC update with
  action 0 returns the same SoC and the penalty 0, and leaves the object as it was
  (the division by a capacity of zero is not part of the model, so the capacity is
  taken positive).
\<close>

theorem get_SoC_zero_action:
  assumes "SoC e = Some s"
    and "SoC_min (cfg e) \<le> s" and "s \<le> SoC_max (cfg e)"
    and "0 < battery_capacity (cfg e)"
  shows "\<exists>i1. get_SoC e 0 i0 = Inr (s, 0, i1, e)"
  using assms by (simp add: get_SoC_def Let_def)

theorem get_SoC_zero_action_witness:
  "SoC (reset_env default_config 739194) = Some (1/2)
   \<and> SoC_min (cfg (reset_env default_config 739194)) \<le> 1/2
   \<and> 1/2 \<le> SoC_max (cfg (reset_env default_config 739194))
   \<and> 0 < battery_capacity (cfg (reset_env default_config 739194))
   \<and> (\<exists>i1. get_SoC (reset_env default_config 739194) 0 (get_info (reset_env default_config 739194))
            = Inr (1/2, 0, i1, reset_env default_config 739194))"
proof -
  let ?e = "reset_env default_config 739194"
  have h: "SoC ?e = Some (1/2)" "SoC_min (cfg ?e) \<le> 1/2" "1/2 \<le> SoC_max (cfg ?e)"
    "0 < battery_capacity (cfg ?e)"
    by (simp_all add: reset_env_def reset_def init_def update_generation_and_load_def get_obs_def
          Let_def default_config_def)
  show ?thesis
    using h get_SoC_zero_action [OF h, of "get_info ?e"] by simp
qed

subsection \<open>The action check\<close>



subsection \<open>The tariff\<close>

text \<open>
  Claim C5. Once the clock is set, the price lookup returns (it does not raise) a value
  that depends on the weekday and the hour of the clock alone, namely the one the schedule
  of the specification gives, and that is one of the three configured price tiers.
\<close>

theorem get_price_schedule:
  assumes "time e = Some t"
  shows "get_price e = Inr (tariff_spec (cfg e) (weekday t) (hour t))
         \<and> tariff_spec (cfg e) (weekday t) (hour t)
             \<in> {Price_min (cfg e), Price_mid (cfg e), Price_max (cfg e)}
         \<and> weekday t < 7"
proof -
  have "get_price e = Inr (tariff_spec (cfg e) (weekday t) (hour t))"
    using assms by (auto simp: get_price_def tariff_spec_def Let_def)
  moreover have "tariff_spec (cfg e) (weekday t) (hour t)
             \<in> {Price_min (cfg e), Price_mid (cfg e), Price_max (cfg e)}"
    by (simp add: tariff_spec_def)
  moreover have "weekday t < 7"
    by (simp add: weekday_def)
  ultimately show ?thesis by blast
qed

theorem get_price_schedule_witness:
  "time (reset_env default_config 739194) = Some \<lparr>ordinal = 739194, hour = 0, minute = 0\<rparr>
   \<and> weekday \<lparr>ordinal = 739194, hour = 0, minute = 0\<rparr> = 0
   \<and> get_price (reset_env default_config 739194) = Inr (1/10)
   \<and> get_price ((reset_env default_config 739194)
        \<lparr>time := Some \<lparr>ordinal = 739194, hour = 9, minute = 0\<rparr>\<rparr>) = Inr (3/10)"
proof -
  let ?e = "reset_env default_config 739194"
  let ?t = "\<lparr>ordinal = 739194, hour = 0, minute = 0\<rparr>"
  let ?t9 = "\<lparr>ordinal = 739194, hour = 9, minute = 0\<rparr>"
  have h: "time ?e = Some ?t" and c: "cfg ?e = default_config"
    by (simp_all add: reset_env_def reset_def init_def update_generation_and_load_def get_obs_def
          Let_def)
  have h9: "time (?e\<lparr>time := Some ?t9\<rparr>) = Some ?t9"
    by simp
  have w: "weekday ?t = 0" "weekday ?t9 = 0"
    by (simp_all add: weekday_def)
  have "tariff_spec default_config 0 0 = 1/10" "tariff_spec default_config 0 9 = 3/10"
    by (simp_all add: tariff_spec_def default_config_def)
  then show ?thesis
    using h w get_price_schedule [OF h] get_price_schedule [OF h9] c by simp
qed

subsection \<open>The SoC stays within its bounds\<close>

text \<open>
  Claim C1. For a valid configuration and an object whose SoC and clock are set (as they
  are from \<^verbatim>\<open>reset\<close> on): every call of the SoC update returns and leaves a SoC in
  \<open>[SoC_min, SoC_max]\<close>, and every non-empty sequence of \<^verbatim>\<open>step\<close> calls, whatever
  the actions, runs without an exception and ends with the SoC in \<open>[SoC_min, SoC_max]\<close>
  (the configuration being unchanged). A sequence of calls is any list \<open>acts @ [a]\<close>, so
  this holds after each step of a run.
\<close>

theorem SoC_within_bounds:
  assumes "valid_config (cfg e)" and "SoC e = Some s" and "time e = Some t"
  shows "(\<exists>soc p i1 e1. get_SoC e x i0 = Inr (soc, p, i1, e1) \<and> SoC e1 = Some soc
            \<and> cfg e1 = cfg e \<and> SoC_min (cfg e) \<le> soc \<and> soc \<le> SoC_max (cfg e))
       \<and> (\<exists>e' s'. steps e (acts @ [a]) = Inr e' \<and> SoC e' = Some s'
            \<and> cfg e' = cfg e \<and> SoC_min (cfg e) \<le> s' \<and> s' \<le> SoC_max (cfg e))"
proof
  have le: "SoC_min (cfg e) \<le> SoC_max (cfg e)"
    using assms(1) by (simp add: valid_config_def)
  from get_SoC_Some [OF assms(2) refl refl, of x i0]
  obtain soc p i1 q where
    "get_SoC e x i0 = Inr (soc, p, i1, e\<lparr>SoC := Some soc\<rparr>)"
    "soc = clip q (SoC_min (cfg e)) (SoC_max (cfg e))"
    by blast
  moreover have "SoC_min (cfg e) \<le> clip q (SoC_min (cfg e)) (SoC_max (cfg e))
      \<and> clip q (SoC_min (cfg e)) (SoC_max (cfg e)) \<le> SoC_max (cfg e)"
    using le by (rule clip_bounds)
  ultimately show "\<exists>soc p i1 e1. get_SoC e x i0 = Inr (soc, p, i1, e1) \<and> SoC e1 = Some soc
            \<and> cfg e1 = cfg e \<and> SoC_min (cfg e) \<le> soc \<and> soc \<le> SoC_max (cfg e)"
    by auto
next
  have le: "SoC_min (cfg e) \<le> SoC_max (cfg e)"
    using assms(1) by (simp add: valid_config_def)
  from steps_initialised [OF assms(2,3), of acts]
  obtain e1 s1 t1 where run: "steps e acts = Inr e1" and c1: "cfg e1 = cfg e"
    and s1: "SoC e1 = Some s1" and t1: "time e1 = Some t1"
    by blast
  from step_initialised [OF s1 t1, of a]
  obtain r e' p where st: "step e1 a = Inr (r, e')" and c': "cfg e' = cfg e1"
    and s': "SoC e' = Some (clip p (SoC_min (cfg e1)) (SoC_max (cfg e1)))"
    by blast
  have "steps e (acts @ [a]) = Inr e'"
    using run st by (simp add: steps_append)
  moreover have "SoC_min (cfg e) \<le> clip p (SoC_min (cfg e)) (SoC_max (cfg e))
      \<and> clip p (SoC_min (cfg e)) (SoC_max (cfg e)) \<le> SoC_max (cfg e)"
    using le by (rule clip_bounds)
  ultimately show "\<exists>e' s'. steps e (acts @ [a]) = Inr e' \<and> SoC e' = Some s'
            \<and> cfg e' = cfg e \<and> SoC_min (cfg e) \<le> s' \<and> s' \<le> SoC_max (cfg e)"
    using s' c' c1 by auto
qed

theorem SoC_within_bounds_witness:
  "valid_config (cfg (reset_env default_config 739194))
   \<and> SoC (reset_env default_config 739194) = Some (1/2)
   \<and> time (reset_env default_config 739194) = Some \<lparr>ordinal = 739194, hour = 0, minute = 0\<rparr>
   \<and> (\<exists>soc p i1 e1. get_SoC (reset_env default_config 739194) 100
                       (get_info (reset_env default_config 739194)) = Inr (soc, p, i1, e1)
          \<and> SoC e1 = Some soc \<and> 1/10 \<le> soc \<and> soc \<le> 19/20)
   \<and> (\<exists>e' s'. steps (reset_env default_config 739194) ([5, -7] @ [100]) = Inr e'
          \<and> SoC e' = Some s' \<and> 1/10 \<le> s' \<and> s' \<le> 19/20)"
proof -
  let ?e = "reset_env default_config 739194"
  have v: "valid_config (cfg ?e)"
    by (simp add: reset_env_simps valid_config_def default_config_def)
  have s: "SoC ?e = Some (1/2)"
    by (simp add: reset_env_simps default_config_def)
  have t: "time ?e = Some \<lparr>ordinal = 739194, hour = 0, minute = 0\<rparr>"
    by (simp add: reset_env_simps)
  have b: "SoC_min (cfg ?e) = 1/10" "SoC_max (cfg ?e) = 19/20"
    by (simp_all add: reset_env_simps default_config_def)
  show ?thesis
    using v s t SoC_within_bounds [OF v s t, of 100 "get_info ?e" "[5, -7]" 100]
    unfolding b by blast
qed

subsection \<open>Termination flag\<close>

text \<open>
  Claim C6. From an object as \<^verbatim>\<open>reset\<close> leaves it (SoC and clock set, step counter
  0), the call number \<open>length acts + 1\<close> of \<^verbatim>\<open>step\<close> returns, with \<open>terminated\<close>
  true exactly when that number has reached \<^verbatim>\<open>max_steps\<close>, and with \<open>truncated\<close>
  false.
\<close>

theorem step_terminated_flag:
  assumes "SoC e = Some s" and "time e = Some t" and "current_step e = 0"
  shows "\<exists>e1 r e2. steps e acts = Inr e1 \<and> step e1 a = Inr (r, e2)
           \<and> terminated r = (max_steps (cfg e) \<le> int (length acts) + 1)
           \<and> truncated r = False"
proof -
  from steps_initialised [OF assms(1,2), of acts]
  obtain e1 s1 t1 where run: "steps e acts = Inr e1" and c1: "cfg e1 = cfg e"
    and s1: "SoC e1 = Some s1" and t1: "time e1 = Some t1"
    and n1: "current_step e1 = current_step e + int (length acts)"
    by blast
  from step_initialised [OF s1 t1, of a]
  obtain ob rw i3 e2 where
    st: "step e1 a = Inr ((ob, rw, max_steps (cfg e1) \<le> current_step e1 + 1, False, i3), e2)"
    by blast
  have "terminated (ob, rw, max_steps (cfg e1) \<le> current_step e1 + 1, False, i3)
          = (max_steps (cfg e) \<le> int (length acts) + 1)"
    using c1 n1 assms(3) by (simp add: terminated_def)
  moreover have "truncated (ob, rw, max_steps (cfg e1) \<le> current_step e1 + 1, False, i3) = False"
    by (simp add: truncated_def)
  ultimately show ?thesis using run st by blast
qed

theorem step_terminated_flag_witness:
  "SoC (reset_env default_config 739194) = Some (1/2)
   \<and> time (reset_env default_config 739194) = Some \<lparr>ordinal = 739194, hour = 0, minute = 0\<rparr>
   \<and> current_step (reset_env default_config 739194) = 0
   \<and> (\<exists>e1 r e2. steps (reset_env default_config 739194) (replicate 22 0) = Inr e1
         \<and> step e1 0 = Inr (r, e2) \<and> \<not> terminated r \<and> \<not> truncated r)
   \<and> (\<exists>e1 r e2. steps (reset_env default_config 739194) (replicate 23 0) = Inr e1
         \<and> step e1 0 = Inr (r, e2) \<and> terminated r \<and> \<not> truncated r)"
proof -
  let ?e = "reset_env default_config 739194"
  have s: "SoC ?e = Some (1/2)"
    by (simp add: reset_env_simps default_config_def)
  have t: "time ?e = Some \<lparr>ordinal = 739194, hour = 0, minute = 0\<rparr>"
    by (simp add: reset_env_simps)
  have n: "current_step ?e = 0"
    by (simp add: reset_env_simps)
  have m: "max_steps (cfg ?e) = 24"
    by (simp add: reset_env_simps default_config_def)
  show ?thesis
    using s t n step_terminated_flag [OF s t n, of "replicate 22 0" 0]
      step_terminated_flag [OF s t n, of "replicate 23 0" 0]
    unfolding m by simp
qed

subsection \<open>The two timestamps of an observation\<close>

text \<open>
  Claim C10. In the observation that a \<^verbatim>\<open>step\<close> call returns, the load and the
  generation are the values computed from the clock \<open>t\<close> the object had when the call
  began, while the four sine and cosine encodings are computed from the clock after its
  advance, \<open>add_hours t 1\<close>, which is the clock of the object after the call and is 60
  minutes later than \<open>t\<close>.
\<close>

theorem step_observation_timestamps:
  assumes "SoC e = Some s" and "time e = Some t"
  shows "\<exists>ob rw d tr i e'. step e a = Inr ((ob, rw, d, tr, i), e')
      \<and> obs_L ob = Some (clip (0.5 + 0.5 * sin (pi * (fractional_hour t - 17) / 12))
                           (Load_min (cfg e)) (Load_max (cfg e)))
      \<and> obs_G ob = Some (clip (max 0 (sin (pi * (fractional_hour t - 6) / 12)))
                           (Generation_min (cfg e)) (Generation_max (cfg e)))
      \<and> hour_sin ob = sin (2 * pi * fractional_hour (add_hours t 1) / 24)
      \<and> hour_cos ob = cos (2 * pi * fractional_hour (add_hours t 1) / 24)
      \<and> day_sin ob = sin (2 * pi * real (weekday (add_hours t 1)) / 7)
      \<and> day_cos ob = cos (2 * pi * real (weekday (add_hours t 1)) / 7)
      \<and> time e' = Some (add_hours t 1)
      \<and> add_hours t 1 \<noteq> t
      \<and> minutes_since_epoch (add_hours t 1) = minutes_since_epoch t + 60"
proof -
  define ac where "ac = clip a (a_min (cfg e)) (a_max (cfg e))"
  define p1 where "p1 = s + eta (cfg e) * (ac * time_interval (cfg e)) / battery_capacity (cfg e)"
  define s1 where "s1 = clip p1 (SoC_min (cfg e)) (SoC_max (cfg e))"
  define g where "g = clip (max 0 (sin (pi * (fractional_hour t - 6) / 12)))
                 (Generation_min (cfg e)) (Generation_max (cfg e))"
  define l where "l = clip (0.5 + 0.5 * sin (pi * (fractional_hour t - 17) / 12))
                 (Load_min (cfg e)) (Load_max (cfg e))"
  define act where "act = actual_action ac (l - g)"
  define p2 where "p2 = s1 + eta (cfg e) * ((act - ac) * time_interval (cfg e)) / battery_capacity (cfg e)"
  define s2 where "s2 = clip p2 (SoC_min (cfg e)) (SoC_max (cfg e))"
  define e' where "e' = e\<lparr>L := Some l, G := Some g, SoC := Some s2, time := Some (add_hours t 1),
                    current_step := current_step e + 1\<rparr>"
  from step_Some [OF assms ac_def p1_def s1_def g_def l_def act_def p2_def s2_def e'_def]
  obtain ob rw i3 where
    st: "step e a = Inr ((ob, rw, max_steps (cfg e) \<le> current_step e + 1, False, i3), e')"
    and ob: "get_obs e' = Inr ob"
    by blast
  have "obs_L ob = Some l" "obs_G ob = Some g"
    "hour_sin ob = sin (2 * pi * fractional_hour (add_hours t 1) / 24)"
    "hour_cos ob = cos (2 * pi * fractional_hour (add_hours t 1) / 24)"
    "day_sin ob = sin (2 * pi * real (weekday (add_hours t 1)) / 7)"
    "day_cos ob = cos (2 * pi * real (weekday (add_hours t 1)) / 7)"
    using ob by (auto simp: get_obs_def e'_def Let_def mult.commute)
  moreover have "time e' = Some (add_hours t 1)" by (simp add: e'_def)
  ultimately show ?thesis
    using st add_hours_neq [of t] add_hours_minutes [of t] unfolding l_def g_def by blast
qed


theorem step_observation_timestamps_witness:
  "SoC (reset_env default_config 739194) = Some (1/2)
   \<and> time (reset_env default_config 739194) = Some \<lparr>ordinal = 739194, hour = 0, minute = 0\<rparr>
   \<and> (\<exists>ob rw d tr i e'. step (reset_env default_config 739194) 0 = Inr ((ob, rw, d, tr, i), e')
         \<and> obs_G ob = Some 0
         \<and> hour_sin ob = sin (pi / 12) \<and> hour_cos ob = cos (pi / 12)
         \<and> time e' = Some \<lparr>ordinal = 739194, hour = 1, minute = 0\<rparr>)"
proof -
  let ?e = "reset_env default_config 739194"
  let ?t = "\<lparr>ordinal = 739194, hour = 0, minute = 0\<rparr>"
  have s: "SoC ?e = Some (1/2)"
    by (simp add: reset_env_simps default_config_def)
  have t: "time ?e = Some ?t"
    by (simp add: reset_env_simps)
  have c: "Generation_min (cfg ?e) = 0" "Generation_max (cfg ?e) = 1"
    by (simp_all add: reset_env_simps default_config_def)
  have a: "add_hours ?t 1 = \<lparr>ordinal = 739194, hour = 1, minute = 0\<rparr>"
    by (simp add: add_hours_def Let_def)
  have f: "fractional_hour ?t = 0" "fractional_hour \<lparr>ordinal = 739194, hour = 1, minute = 0\<rparr> = 1"
    by (simp_all add: fractional_hour_def)
  have g: "clip (max 0 (sin (pi * (0 - 6) / 12))) 0 1 = 0"
    by (simp add: clip_def)
  show ?thesis
    using s t step_observation_timestamps [OF s t, of 0]
    unfolding a f c g by auto
qed

subsection \<open>The second SoC update of a step\<close>





subsection \<open>Calling step out of turn\<close>

text \<open>
  Claim C7 as stated fails: the class has no usage error, and a \<^verbatim>\<open>step\<close> call after
  the one that returned \<open>terminated = True\<close> runs like any other. With
  \<^verbatim>\<open>max_steps = 1\<close> the first call after \<^verbatim>\<open>reset\<close> returns \<open>terminated\<close>, and the
  second call returns as well.
\<close>

theorem step_usage_counterexample:
  "\<not> isl (step (reset_env config_one_step 739194) 0)
   \<and> terminated (result_of_step (reset_env config_one_step 739194) 0)
   \<and> \<not> isl (step (env_after_step (reset_env config_one_step 739194) 0) 0)"
proof -
  let ?e = "reset_env config_one_step 739194"
  have h: "step ?e 0 = Inr (result_of_step ?e 0, env_after_step ?e 0)"
    "terminated (result_of_step ?e 0)"
    using first_step_one_step_episode by simp_all
  from step_after_terminated [OF h, of 0]
  obtain r2 e2 where "step (env_after_step ?e 0) 0 = Inr (r2, e2)"
    by blast
  then show ?thesis using h by simp
qed

text \<open>
  Claim C7, amended. A \<^verbatim>\<open>step\<close> call on an object that was never reset raises an
  exception, the \<^verbatim>\<open>TypeError\<close> of the SoC update on the unset SoC; a \<^verbatim>\<open>step\<close>
  call on the object left by a call that returned \<open>terminated = True\<close> raises nothing: it
  returns, again with \<open>terminated\<close> true and \<open>truncated\<close> false.
\<close>

theorem step_usage:
  assumes "step e a = Inr (r, e')" and "terminated r"
  shows "step (init c) a0 = Inl TypeError
       \<and> (\<exists>r2 e2. step e' a2 = Inr (r2, e2) \<and> terminated r2 \<and> \<not> truncated r2)"
  using step_uninitialised [of "init c" a0] step_after_terminated [OF assms, of a2]
  by (simp add: init_def)

theorem step_usage_witness:
  "step (reset_env config_one_step 739194) 0
     = Inr (result_of_step (reset_env config_one_step 739194) 0,
            env_after_step (reset_env config_one_step 739194) 0)
   \<and> terminated (result_of_step (reset_env config_one_step 739194) 0)
   \<and> step (init default_config) 0 = Inl TypeError
   \<and> (\<exists>r2 e2. step (env_after_step (reset_env config_one_step 739194) 0) 0 = Inr (r2, e2)
          \<and> terminated r2 \<and> \<not> truncated r2)"
proof -
  let ?e = "reset_env config_one_step 739194"
  have h: "step ?e 0 = Inr (result_of_step ?e 0, env_after_step ?e 0)"
    "terminated (result_of_step ?e 0)"
    using first_step_one_step_episode by simp_all
  show ?thesis
    using h step_usage [OF h, of default_config 0 0] by simp
qed

subsection \<open>A discharge request while generation exceeds load\<close>

text \<open>
  Claim C2 does not hold of the code: the discharge branch takes the minimum
  with the net load itself, not with \<open>max(net, 0)\<close>. With the default configuration,
  after \<^verbatim>\<open>reset\<close> and eleven calls with action 0 the clock is at 11:00, where the
  load is 0 and the generation is \<open>sin (5 * pi / 12)\<close>; the call with action \<open>-0.5\<close>
  then computes the actual action \<open>sin (5 * pi / 12) > 0\<close>, a charge, where the rule of
  the specification gives 0, and the SoC rises from 0.5 to
  \<open>0.5 + 0.09 * sin (5 * pi / 12)\<close>.
\<close>

theorem discharge_request_with_surplus:
  "\<not> isl (steps (reset_env default_config 739194) (replicate 11 0))
   \<and> SoC (env_after_steps (reset_env default_config 739194) (replicate 11 0)) = Some (1/2)
   \<and> time (env_after_steps (reset_env default_config 739194) (replicate 11 0))
       = Some \<lparr>ordinal = 739194, hour = 11, minute = 0\<rparr>
   \<and> \<not> isl (step (env_after_steps (reset_env default_config 739194) (replicate 11 0)) (-1/2))
   \<and> L (env_after_step (env_after_steps (reset_env default_config 739194) (replicate 11 0)) (-1/2))
       = Some 0
   \<and> G (env_after_step (env_after_steps (reset_env default_config 739194) (replicate 11 0)) (-1/2))
       = Some (sin (5 * pi / 12))
   \<and> 0 < sin (5 * pi / 12)
   \<and> actual_action (-1/2) (0 - sin (5 * pi / 12)) = sin (5 * pi / 12)
   \<and> actual_action_spec (-1/2) (0 - sin (5 * pi / 12)) = 0
   \<and> SoC (env_after_step (env_after_steps (reset_env default_config 739194) (replicate 11 0)) (-1/2))
       = Some (1/2 + 9/100 * sin (5 * pi / 12))"
proof -
  let ?env = "reset_env default_config 739194"
  let ?start = "\<lparr>ordinal = 739194, hour = 0, minute = 0\<rparr>"
  let ?t = "\<lparr>ordinal = 739194, hour = 11, minute = 0\<rparr>"
  let ?g = "sin (5 * pi / 12)"
  have s0: "SoC ?env = Some (1/2)"
    by (simp add: reset_env_simps default_config_def)
  have t0: "time ?env = Some ?start"
    by (simp add: reset_env_simps)
  have b0: "SoC_min (cfg ?env) \<le> 1/2" "1/2 \<le> SoC_max (cfg ?env)"
      "a_min (cfg ?env) \<le> 0" "0 \<le> a_max (cfg ?env)"
    by (simp_all add: reset_env_simps default_config_def)
  have h0: "hour ?start < 24"
    by simp
  from steps_zero_actions [OF s0 t0 b0 h0, of 11]
  obtain e where run: "steps ?env (replicate 11 0) = Inr e" and ce: "cfg e = cfg ?env"
    and s: "SoC e = Some (1/2)" and t': "time e = Some (add_hours ?start 11)"
    by blast
  have t: "time e = Some ?t"
    using t' by (simp add: add_hours_def Let_def)
  have ea: "env_after_steps ?env (replicate 11 0) = e" and ok: "\<not> isl (steps ?env (replicate 11 0))"
    using run by (simp_all add: env_after_steps_def)
  have c: "a_min (cfg e) = -1" "a_max (cfg e) = 1" "eta (cfg e) = 9/10"
    "time_interval (cfg e) = 1" "battery_capacity (cfg e) = 10"
    "SoC_min (cfg e) = 1/10" "SoC_max (cfg e) = 19/20"
    "Load_min (cfg e) = 0" "Load_max (cfg e) = 1"
    "Generation_min (cfg e) = 0" "Generation_max (cfg e) = 1"
    by (simp_all add: ce reset_env_simps default_config_def)
  have pos: "0 < ?g" and le1: "?g \<le> 1"
    using sin_five_twelfths by simp_all
  define e' where "e' = e\<lparr>L := Some 0, G := Some ?g, SoC := Some (1/2 + 9/100 * ?g),
                    time := Some (add_hours ?t 1), current_step := current_step e + 1\<rparr>"
  have ac: "-1/2 = clip (-1/2) (a_min (cfg e)) (a_max (cfg e))"
    unfolding c by (simp add: clip_def)
  have p1: "91/200 = 1/2 + eta (cfg e) * (-1/2 * time_interval (cfg e)) / battery_capacity (cfg e)"
    unfolding c by simp
  have s1: "91/200 = clip (91/200) (SoC_min (cfg e)) (SoC_max (cfg e))"
    unfolding c by (simp add: clip_def)
  have ag: "pi * (fractional_hour ?t - 6) / 12 = 5 * pi / 12"
    and al: "pi * (fractional_hour ?t - 17) / 12 = - (pi / 2)"
    by (simp_all add: fractional_hour_def)
  have g: "?g = clip (max 0 (sin (pi * (fractional_hour ?t - 6) / 12)))
                 (Generation_min (cfg e)) (Generation_max (cfg e))"
    unfolding c ag using pos le1 by (simp add: clip_def)
  have l: "0 = clip (0.5 + 0.5 * sin (pi * (fractional_hour ?t - 17) / 12))
                 (Load_min (cfg e)) (Load_max (cfg e))"
    unfolding c al by (simp add: clip_def)
  have act: "?g = actual_action (-1/2) (0 - ?g)"
    using pos by (simp add: actual_action_def Let_def)
  have p2: "1/2 + 9/100 * ?g
      = 91/200 + eta (cfg e) * ((?g - (-1/2)) * time_interval (cfg e)) / battery_capacity (cfg e)"
  proof -
    have "1/2 + 9/100 * x = 91/200 + 9/10 * ((x - (-1/2)) * 1) / 10" for x :: real
      by (simp add: field_simps)
    then show ?thesis unfolding c by blast
  qed
  have "1/10 \<le> 1/2 + 9/100 * ?g" and "1/2 + 9/100 * ?g \<le> 19/20"
    using pos le1 by linarith+
  then have s2: "1/2 + 9/100 * ?g = clip (1/2 + 9/100 * ?g) (SoC_min (cfg e)) (SoC_max (cfg e))"
    unfolding c by (simp only: clip_id)
  from step_Some [OF s t ac p1 s1 g l act p2 s2 e'_def]
  obtain r where st: "step e (-1/2) = Inr (r, e')"
    by blast
  then have eb: "env_after_step e (-1/2) = e'" and ok2: "\<not> isl (step e (-1/2))"
    by (simp_all add: step_projections)
  have f: "L e' = Some 0" "G e' = Some ?g" "SoC e' = Some (1/2 + 9/100 * ?g)"
    by (simp_all add: e'_def)
  have sp: "actual_action_spec (-1/2) (0 - ?g) = 0"
    using pos by (simp add: actual_action_spec_def)
  show ?thesis
    unfolding ea eb using ok s t ok2 f pos act [symmetric] sp run by simp
qed

subsection \<open>The clock advance and the step duration\<close>

text \<open>
  Claim C8 does not hold of the code: the clock always advances by one hour. With
  \<^verbatim>\<open>time_interval = 0.5\<close> a step from 00:00 leaves the clock at 01:00, 60 minutes
  later, not 30.
\<close>

theorem clock_ignores_time_interval:
  "time_interval (cfg (reset_env config_half_hour 739194)) = 1/2
   \<and> time (reset_env config_half_hour 739194) = Some \<lparr>ordinal = 739194, hour = 0, minute = 0\<rparr>
   \<and> \<not> isl (step (reset_env config_half_hour 739194) 0)
   \<and> time (env_after_step (reset_env config_half_hour 739194) 0)
       = Some \<lparr>ordinal = 739194, hour = 1, minute = 0\<rparr>
   \<and> minutes_since_epoch \<lparr>ordinal = 739194, hour = 1, minute = 0\<rparr>
       = minutes_since_epoch \<lparr>ordinal = 739194, hour = 0, minute = 0\<rparr> + 60"
proof -
  let ?e = "reset_env config_half_hour 739194"
  let ?t = "\<lparr>ordinal = 739194, hour = 0, minute = 0\<rparr>"
  have s: "SoC ?e = Some (initial_SoC config_half_hour)" and t: "time ?e = Some ?t"
    and i: "time_interval (cfg ?e) = 1/2"
    by (simp_all add: reset_env_simps config_half_hour_def)
  from step_initialised [OF s t, of 0]
  obtain r e' where st: "step ?e 0 = Inr (r, e')" and t': "time e' = Some (add_hours ?t 1)"
    by blast
  have "env_after_step ?e 0 = e'" "\<not> isl (step ?e 0)"
    using st by (simp_all add: step_projections)
  moreover have "add_hours ?t 1 = \<lparr>ordinal = 739194, hour = 1, minute = 0\<rparr>"
    by (simp add: add_hours_def Let_def)
  ultimately show ?thesis
    using i t t' by (simp add: minutes_since_epoch_def)
qed

end
